theory Spec2Isabelle
  imports Complex_Main
begin

section \<open>Data model\<close>

text \<open>
  A stored identifier is the string form of an ObjectId (\<open>toString()\<close>); the handlers
  compare these strings. The \<open>rideId\<close> of a payload is any string a client chose: a
  query by id casts it first. Dates are milliseconds since the epoch. Every
  \<open>new Date()\<close> / \<open>Date.now\<close> of the source is a reading of the server clock, passed to
  the model as an argument, one per reading.
\<close>

type_synonym user_id = string
type_synonym ride_id = string
type_synonym socket_id = string
type_synonym time = int

text \<open>The exceptions of the modelled code: a save rejected by a schema validator, a
  query by an id that cannot be cast, and the destructuring of a payload that is not
  there (\<open>data\<close> is \<open>undefined\<close>).\<close>

datatype error = ValidationError | CastError | TypeError

subsection \<open>Car (server/models/Car.js, carSchema)\<close>

text \<open>Only the \<open>photos\<close> path of the schema is kept: it is the only path that
  \<open>addPhoto\<close> and the pre-save middleware read or write.\<close>

record photo =
  url :: string
  caption :: "string option"
  isPrimary :: bool
  uploadedAt :: time

record car =
  photos :: "photo list"

text \<open>The \<open>forEach\<close> of the pre-save middleware, with its local \<open>foundPrimary\<close> as
  the first argument.\<close>

fun keep_first_primary :: "bool \<Rightarrow> photo list \<Rightarrow> photo list" where
  "keep_first_primary foundPrimary [] = []"
| "keep_first_primary foundPrimary (p # ps) =
     (if isPrimary p \<and> \<not> foundPrimary then p # keep_first_primary True ps
      else if isPrimary p then p\<lparr>isPrimary := False\<rparr> # keep_first_primary foundPrimary ps
      else p # keep_first_primary foundPrimary ps)"

definition car_pre_save :: "car \<Rightarrow> car" where
  "car_pre_save c =
     (let primaryPhotos = filter isPrimary (photos c)
      in if length primaryPhotos > 1
         then c\<lparr>photos := keep_first_primary False (photos c)\<rparr>
         else c)"

text \<open>
  \<open>save()\<close>: mongoose validates the modified paths, then runs the pre-save middleware,
  then writes the document. The first argument says whether the sub-document the caller
  has just pushed passes its schema validators; a failed validation rejects the save
  before the middleware runs.
\<close>

definition car_save :: "bool \<Rightarrow> car \<Rightarrow> error + car" where
  "car_save valid c = (if valid then Inr (car_pre_save c) else Inl ValidationError)"

text \<open>\<open>url\<close> is \<open>required\<close>: a missing or empty string fails.\<close>

definition photo_valid :: "photo \<Rightarrow> bool" where
  "photo_valid p = (url p \<noteq> [])"

definition addPhoto :: "photo \<Rightarrow> car \<Rightarrow> error + car" where
  "addPhoto photoData c =
     (let ps = (if isPrimary photoData
                then map (\<lambda>photo. photo\<lparr>isPrimary := False\<rparr>) (photos c)
                else photos c)
      in car_save (photo_valid photoData) (c\<lparr>photos := ps @ [photoData]\<rparr>))"

definition primary_count :: "car \<Rightarrow> nat" where
  "primary_count c = length (filter isPrimary (photos c))"

subsection \<open>Ride (server/models/Car.js, rideSchema) and User (userSchema)\<close>

datatype ride_status = PLANNING | ACTIVE | COMPLETED | CANCELLED
datatype participant_status = INVITED | CONFIRMED | DECLINED | JOINED | LEFT
datatype friend_status = PENDING | ACCEPTED | BLOCKED

type_synonym coords = "real \<times> real"

record location =
  coordinates :: coords
  timestamp :: time
  speed :: real
  heading :: real

record participant =
  p_user :: user_id
  p_status :: participant_status
  currentLocation :: "location option"
  p_isOnline :: bool

record chat_entry =
  c_user :: user_id
  c_message :: string
  c_timestamp :: time
  c_type :: string

text \<open>Of \<open>stats\<close> only \<open>duration\<close> is written by the code; the other counters keep
  their stored values and are left out.\<close>

record ride_stats =
  duration :: int

record ride =
  rid :: ride_id
  organizer :: user_id
  status :: ride_status
  startTime :: time
  endTime :: "time option"
  participants :: "participant list"
  chat :: "chat_entry list"
  stats :: ride_stats

record friend =
  f_user :: user_id
  f_status :: friend_status

record user =
  uid :: user_id
  username :: string
  friends :: "friend list"
  isOnline :: bool
  lastSeen :: time

text \<open>Pre-save middleware of the ride: the duration is recomputed when both times are
  set (a \<open>Date\<close> is always truthy; \<open>startTime\<close> is required).\<close>

definition ride_pre_save :: "ride \<Rightarrow> ride" where
  "ride_pre_save r =
     (case endTime r of
        None \<Rightarrow> r
      | Some e \<Rightarrow> r\<lparr>stats := (stats r)\<lparr>duration := e - startTime r\<rparr>\<rparr>)"

definition ride_save :: "bool \<Rightarrow> ride \<Rightarrow> error + ride" where
  "ride_save valid r = (if valid then Inr (ride_pre_save r) else Inl ValidationError)"

text \<open>\<open>participants.find(p => p.user.toString() === userId.toString())\<close> followed by an
  assignment to the participant found: the first match is rewritten.\<close>

fun update_first :: "('a \<Rightarrow> bool) \<Rightarrow> ('a \<Rightarrow> 'a) \<Rightarrow> 'a list \<Rightarrow> 'a list" where
  "update_first P f [] = []"
| "update_first P f (x # xs) = (if P x then f x # xs else x # update_first P f xs)"

text \<open>The location a client sends; \<open>speed || 0\<close> and \<open>heading || 0\<close> turn a missing
  value into 0.\<close>

record location_data =
  ld_coordinates :: coords
  ld_speed :: "real option"
  ld_heading :: "real option"

definition or0 :: "real option \<Rightarrow> real" where
  "or0 v = (case v of None \<Rightarrow> 0 | Some x \<Rightarrow> x)"

definition updateParticipantLocation :: "time \<Rightarrow> user_id \<Rightarrow> location_data \<Rightarrow> ride \<Rightarrow> error + ride" where
  "updateParticipantLocation now userId locationData r =
     ride_save True
       (r\<lparr>participants :=
            update_first (\<lambda>p. p_user p = userId)
              (\<lambda>p. p\<lparr>currentLocation :=
                        Some \<lparr>coordinates = ld_coordinates locationData, timestamp = now,
                              speed = or0 (ld_speed locationData),
                              heading = or0 (ld_heading locationData)\<rparr>,
                      p_isOnline := True\<rparr>)
              (participants r)\<rparr>)"

text \<open>Validators of a chat sub-document: \<open>message\<close> is required (a missing or empty
  string fails) with \<open>maxlength: 500\<close>; \<open>type\<close> is one of the enum's strings.\<close>

definition chat_valid :: "chat_entry \<Rightarrow> bool" where
  "chat_valid c =
     (c_message c \<noteq> [] \<and> length (c_message c) \<le> 500 \<and>
      c_type c \<in> set [''TEXT'', ''SYSTEM'', ''LOCATION''])"

text \<open>\<open>addChatMessage\<close>: the pushed entry takes its \<open>timestamp\<close> from the schema default
  \<open>Date.now\<close>, the clock reading \<open>now\<close>.\<close>

definition addChatMessage :: "time \<Rightarrow> user_id \<Rightarrow> string \<Rightarrow> string \<Rightarrow> ride \<Rightarrow> error + ride" where
  "addChatMessage now userId message type r =
     (let entry = \<lparr>c_user = userId, c_message = message, c_timestamp = now, c_type = type\<rparr>
      in ride_save (chat_valid entry) (r\<lparr>chat := chat r @ [entry]\<rparr>))"

definition startRide :: "time \<Rightarrow> ride \<Rightarrow> error + ride" where
  "startRide now r = ride_save True (r\<lparr>status := ACTIVE, startTime := now\<rparr>)"

definition endRide :: "time \<Rightarrow> ride \<Rightarrow> error + ride" where
  "endRide now r = ride_save True (r\<lparr>status := COMPLETED, endTime := Some now\<rparr>)"

subsection \<open>The persisted collections\<close>

text \<open>A collection is the list of its documents; \<open>_id\<close> is its unique key.\<close>

text \<open>
  \<open>Ride.findById(rideId)\<close>. Mongoose casts the string to an ObjectId before it queries:
  \<open>cast\<close> is that cast, giving the string form of the ObjectId, or \<open>None\<close> for a string
  that is no ObjectId, on which the query is rejected with a CastError. Two strings may
  cast to one ObjectId.
\<close>

definition findRideById :: "(string \<Rightarrow> ride_id option) \<Rightarrow> string \<Rightarrow> ride list \<Rightarrow> error + ride option" where
  "findRideById cast k rs =
     (case cast k of
        None \<Rightarrow> Inl CastError
      | Some c \<Rightarrow> Inr (find (\<lambda>r. rid r = c) rs))"

definition findUserById :: "user_id \<Rightarrow> user list \<Rightarrow> user option" where
  "findUserById k us = find (\<lambda>u. uid u = k) us"

text \<open>What a successful \<open>save()\<close> writes: the document replaces the stored one of the
  same \<open>_id\<close>.\<close>

definition persist :: "ride \<Rightarrow> ride list \<Rightarrow> ride list" where
  "persist r rs = map (\<lambda>d. if rid d = rid r then r else d) rs"

text \<open>\<open>User.findByIdAndUpdate(id, {isOnline, lastSeen: new Date()})\<close>.\<close>

definition updateUserPresence :: "user_id \<Rightarrow> bool \<Rightarrow> time \<Rightarrow> user list \<Rightarrow> user list" where
  "updateUserPresence k online now us =
     map (\<lambda>u. if uid u = k then u\<lparr>isOnline := online, lastSeen := now\<rparr> else u) us"

text \<open>\<open>Ride.find({'participants.user': id, status: 'ACTIVE'})\<close>.\<close>

definition findActiveRides :: "user_id \<Rightarrow> ride list \<Rightarrow> ride list" where
  "findActiveRides k rs =
     filter (\<lambda>r. list_ex (\<lambda>p. p_user p = k) (participants r) \<and> status r = ACTIVE) rs"

text \<open>\<open>User.find({'friends.user': id, 'friends.status': 'ACCEPTED'})\<close>: each condition
  is matched by some element of the \<open>friends\<close> array, not necessarily the same one.\<close>

definition findFriends :: "user_id \<Rightarrow> user list \<Rightarrow> user list" where
  "findFriends k us =
     filter (\<lambda>u. list_ex (\<lambda>f. f_user f = k) (friends u) \<and>
                 list_ex (\<lambda>f. f_status f = ACCEPTED) (friends u)) us"

section \<open>The socket connection handlers (src/unnamed/part_000)\<close>

datatype out_event =
    AuthError string
  | Authenticated user_id string "ride_id list"
  | FriendOnline user_id string
  | FriendOffline user_id string
  | JoinedRide ride_id
  | ParticipantJoined user_id string
  | LeftRide ride_id
  | ParticipantLeft user_id string
  | ParticipantLocation user_id string location
  | NewMessage user_id string string string time
  | RideStarted ride_id time
  | RideEnded ride_id "time option" ride_stats
  | UserTyping user_id string bool
  | Error string

text \<open>\<open>socket.emit\<close>, \<open>socket.to(room).emit\<close> (the room without the sender) and
  \<open>io.to(room).emit\<close> (the whole room). The room \<open>ride_${rideId}\<close> is named by its
  ride id.\<close>

datatype target = ToSocket socket_id | ToRoomExcept ride_id socket_id | ToRoom ride_id

text \<open>
  The module's two maps, the per-socket fields \<open>socket.userId\<close> / \<open>socket.user\<close> (set
  together at authentication: \<open>socketUser\<close> holds the user document, whose \<open>uid\<close> is
  \<open>socket.userId\<close>; \<open>None\<close> is an unauthenticated socket), the rooms of socket.io as
  \<open>socket.join\<close> and \<open>socket.leave\<close> change them, the two collections, and the log of
  everything emitted, oldest first.
\<close>

record state =
  users :: "user list"
  rides :: "ride list"
  connectedUsers :: "user_id \<rightharpoonup> socket_id"
  rideRooms :: "ride_id \<rightharpoonup> user_id set"
  socketUser :: "socket_id \<rightharpoonup> user"
  ioRooms :: "ride_id \<Rightarrow> socket_id set"
  outbox :: "(target \<times> out_event) list"

definition emit :: "state \<Rightarrow> target \<Rightarrow> out_event \<Rightarrow> state" where
  "emit s tgt ev = s\<lparr>outbox := outbox s @ [(tgt, ev)]\<rparr>"

text \<open>The sockets an emission is delivered to.\<close>

fun recipients :: "state \<Rightarrow> target \<Rightarrow> socket_id set" where
  "recipients s (ToSocket k) = {k}"
| "recipients s (ToRoomExcept r k) = ioRooms s r - {k}"
| "recipients s (ToRoom r) = ioRooms s r"

text \<open>\<open>socket.join\<close> of the room, then the entry of \<open>rideRooms\<close> is created when absent
  and the user id added to it (authenticate, lines 46-50; join_ride, lines 106-110).\<close>

definition join_room :: "state \<Rightarrow> socket_id \<Rightarrow> ride_id \<Rightarrow> user_id \<Rightarrow> state" where
  "join_room s sid rideId userId =
     s\<lparr>ioRooms := (ioRooms s)(rideId := insert sid (ioRooms s rideId)),
       rideRooms := (rideRooms s)(rideId \<mapsto>
          insert userId (case rideRooms s rideId of None \<Rightarrow> {} | Some us \<Rightarrow> us))\<rparr>"

text \<open>The \<open>friends.forEach\<close> of authenticate and disconnect: an emission to the socket
  registered for each friend that has one.\<close>

definition notify_friends :: "state \<Rightarrow> user list \<Rightarrow> out_event \<Rightarrow> state" where
  "notify_friends s fs ev =
     foldl (\<lambda>acc friend.
              case connectedUsers acc (uid friend) of
                None \<Rightarrow> acc
              | Some friendSocket \<Rightarrow> emit acc (ToSocket friendSocket) ev) s fs"

text \<open>
  Each handler below is the whole callback of its \<open>socket.on\<close>. Its last argument is the
  payload \<open>data\<close>; \<open>None\<close> is an event sent without one, whose destructuring throws a
  TypeError. A handler with a \<open>try/catch\<close> ends in its \<open>catch\<close> then, as it does on a
  CastError of the query and on a rejected save.
\<close>

text \<open>\<open>verify\<close> is \<open>jwt.verify\<close> with the server's secret, followed by reading
  \<open>decoded.userId\<close> and by the cast of that id in \<open>User.findById\<close>; \<open>None\<close> is the
  exception that either throws, which the same \<open>catch\<close> answers. The payload holds the
  token, if any.\<close>

definition authenticate ::
  "(string \<Rightarrow> user_id option) \<Rightarrow> time \<Rightarrow> state \<Rightarrow> socket_id \<Rightarrow> string option option \<Rightarrow> state" where
  "authenticate verify now s sid data =
     (case data of
        None \<Rightarrow> emit s (ToSocket sid) (AuthError ''Authentication failed'')
      | Some None \<Rightarrow> emit s (ToSocket sid) (AuthError ''No token provided'')
      | Some (Some tok) \<Rightarrow>
          if tok = [] then emit s (ToSocket sid) (AuthError ''No token provided'')
          else
            (case verify tok of
               None \<Rightarrow> emit s (ToSocket sid) (AuthError ''Authentication failed'')
             | Some decodedUserId \<Rightarrow>
                 (case findUserById decodedUserId (users s) of
                    None \<Rightarrow> emit s (ToSocket sid) (AuthError ''Invalid token'')
                  | Some usr \<Rightarrow>
                      let s1 = s\<lparr>socketUser := (socketUser s)(sid \<mapsto> usr),
                                 connectedUsers := (connectedUsers s)(uid usr \<mapsto> sid)\<rparr>;
                          s2 = s1\<lparr>users := updateUserPresence (uid usr) True now (users s1)\<rparr>;
                          activeRides = findActiveRides (uid usr) (rides s2);
                          s3 = foldl (\<lambda>acc r. join_room acc sid (rid r) (uid usr)) s2 activeRides;
                          s4 = emit s3 (ToSocket sid)
                                 (Authenticated (uid usr) (username usr) (map rid activeRides))
                      in notify_friends s4 (findFriends (uid usr) (users s4))
                           (FriendOnline (uid usr) (username usr)))))"

text \<open>The room joined and the key of \<open>rideRooms\<close> are the payload's string as sent, not
  the id it casts to.\<close>

definition join_ride ::
  "(string \<Rightarrow> ride_id option) \<Rightarrow> state \<Rightarrow> socket_id \<Rightarrow> string option \<Rightarrow> state" where
  "join_ride cast s sid data =
     (case data of
        None \<Rightarrow> emit s (ToSocket sid) (Error ''Failed to join ride'')
      | Some rideId \<Rightarrow>
          (case socketUser s sid of
             None \<Rightarrow> emit s (ToSocket sid) (Error ''Not authenticated'')
           | Some su \<Rightarrow>
               (case findRideById cast rideId (rides s) of
                  Inl e \<Rightarrow> emit s (ToSocket sid) (Error ''Failed to join ride'')
                | Inr None \<Rightarrow> emit s (ToSocket sid) (Error ''Ride not found'')
                | Inr (Some r) \<Rightarrow>
                    let isParticipant = list_ex (\<lambda>p. p_user p = uid su) (participants r)
                    in if \<not> isParticipant
                       then emit s (ToSocket sid) (Error ''Not a participant of this ride'')
                       else
                         let s1 = join_room s sid rideId (uid su);
                             s2 = emit s1 (ToSocket sid) (JoinedRide rideId)
                         in emit s2 (ToRoomExcept rideId sid)
                              (ParticipantJoined (uid su) (username su)))))"

text \<open>The cleanup shared by leave_ride (lines 134-139) and by the body of the
  \<open>rideRooms.forEach\<close> of disconnect (lines 296-299), on one entry of the map.\<close>

definition remove_member :: "user_id \<Rightarrow> user_id set \<Rightarrow> user_id set option" where
  "remove_member userId us = (let us' = us - {userId} in if us' = {} then None else Some us')"

text \<open>The \<open>catch\<close> of leave_ride and of update_location only logs.\<close>

definition leave_ride :: "state \<Rightarrow> socket_id \<Rightarrow> string option \<Rightarrow> state" where
  "leave_ride s sid data =
     (case data of
        None \<Rightarrow> s
      | Some rideId \<Rightarrow>
          (case socketUser s sid of
             None \<Rightarrow> s
           | Some su \<Rightarrow>
               let s1 = s\<lparr>ioRooms := (ioRooms s)(rideId := ioRooms s rideId - {sid})\<rparr>;
                   s2 = (case rideRooms s1 rideId of
                           None \<Rightarrow> s1
                         | Some us \<Rightarrow>
                             s1\<lparr>rideRooms := (rideRooms s1)(rideId := remove_member (uid su) us)\<rparr>);
                   s3 = emit s2 (ToSocket sid) (LeftRide rideId)
               in emit s3 (ToRoomExcept rideId sid) (ParticipantLeft (uid su) (username su))))"

definition update_location ::
  "(string \<Rightarrow> ride_id option) \<Rightarrow> time \<Rightarrow> time \<Rightarrow> state \<Rightarrow> socket_id \<Rightarrow>
     (string \<times> location_data) option \<Rightarrow> state" where
  "update_location cast now1 now2 s sid data =
     (case data of
        None \<Rightarrow> s
      | Some (rideId, loc) \<Rightarrow>
          (case socketUser s sid of
             None \<Rightarrow> s
           | Some su \<Rightarrow>
               (case findRideById cast rideId (rides s) of
                  Inl e \<Rightarrow> s
                | Inr None \<Rightarrow> s
                | Inr (Some r) \<Rightarrow>
                    (case updateParticipantLocation now1 (uid su) loc r of
                       Inl e \<Rightarrow> s
                     | Inr r' \<Rightarrow>
                         emit (s\<lparr>rides := persist r' (rides s)\<rparr>) (ToRoomExcept rideId sid)
                           (ParticipantLocation (uid su) (username su)
                              \<lparr>coordinates = ld_coordinates loc, timestamp = now2,
                               speed = or0 (ld_speed loc), heading = or0 (ld_heading loc)\<rparr>)))))"

text \<open>The payload of send_message. A client may put any further field in it, such as
  a timestamp of its own; the handler destructures \<open>rideId\<close>, \<open>message\<close> and \<open>type\<close>
  only (\<open>type = 'TEXT'\<close> when absent).\<close>

record message_data =
  m_rideId :: string
  m_message :: string
  m_type :: "string option"
  m_timestamp :: "time option"

definition type_or_default :: "string option \<Rightarrow> string" where
  "type_or_default t = (case t of None \<Rightarrow> ''TEXT'' | Some ty \<Rightarrow> ty)"

definition send_message ::
  "(string \<Rightarrow> ride_id option) \<Rightarrow> time \<Rightarrow> time \<Rightarrow> state \<Rightarrow> socket_id \<Rightarrow>
     message_data option \<Rightarrow> state" where
  "send_message cast now1 now2 s sid data =
     (case data of
        None \<Rightarrow> emit s (ToSocket sid) (Error ''Failed to send message'')
      | Some d \<Rightarrow>
          let rideId = m_rideId d; message = m_message d; type = type_or_default (m_type d)
          in case socketUser s sid of
               None \<Rightarrow> s
             | Some su \<Rightarrow>
                 (case findRideById cast rideId (rides s) of
                    Inl e \<Rightarrow> emit s (ToSocket sid) (Error ''Failed to send message'')
                  | Inr None \<Rightarrow> s
                  | Inr (Some r) \<Rightarrow>
                      (case addChatMessage now1 (uid su) message type r of
                         Inl e \<Rightarrow> emit s (ToSocket sid) (Error ''Failed to send message'')
                       | Inr r' \<Rightarrow>
                           emit (s\<lparr>rides := persist r' (rides s)\<rparr>) (ToRoom rideId)
                             (NewMessage (uid su) (username su) message type now2))))"

definition start_ride ::
  "(string \<Rightarrow> ride_id option) \<Rightarrow> time \<Rightarrow> state \<Rightarrow> socket_id \<Rightarrow> string option \<Rightarrow> state" where
  "start_ride cast now s sid data =
     (case data of
        None \<Rightarrow> emit s (ToSocket sid) (Error ''Failed to start ride'')
      | Some rideId \<Rightarrow>
          (case socketUser s sid of
             None \<Rightarrow> s
           | Some su \<Rightarrow>
               (case findRideById cast rideId (rides s) of
                  Inl e \<Rightarrow> emit s (ToSocket sid) (Error ''Failed to start ride'')
                | Inr None \<Rightarrow> s
                | Inr (Some r) \<Rightarrow>
                    if organizer r \<noteq> uid su
                    then emit s (ToSocket sid) (Error ''Only organizer can start ride'')
                    else
                      (case startRide now r of
                         Inl e \<Rightarrow> emit s (ToSocket sid) (Error ''Failed to start ride'')
                       | Inr r' \<Rightarrow>
                           emit (s\<lparr>rides := persist r' (rides s)\<rparr>) (ToRoom rideId)
                             (RideStarted rideId (startTime r'))))))"

definition end_ride ::
  "(string \<Rightarrow> ride_id option) \<Rightarrow> time \<Rightarrow> state \<Rightarrow> socket_id \<Rightarrow> string option \<Rightarrow> state" where
  "end_ride cast now s sid data =
     (case data of
        None \<Rightarrow> emit s (ToSocket sid) (Error ''Failed to end ride'')
      | Some rideId \<Rightarrow>
          (case socketUser s sid of
             None \<Rightarrow> s
           | Some su \<Rightarrow>
               (case findRideById cast rideId (rides s) of
                  Inl e \<Rightarrow> emit s (ToSocket sid) (Error ''Failed to end ride'')
                | Inr None \<Rightarrow> s
                | Inr (Some r) \<Rightarrow>
                    if organizer r \<noteq> uid su
                    then emit s (ToSocket sid) (Error ''Only organizer can end ride'')
                    else
                      (case endRide now r of
                         Inl e \<Rightarrow> emit s (ToSocket sid) (Error ''Failed to end ride'')
                       | Inr r' \<Rightarrow>
                           emit (s\<lparr>rides := persist r' (rides s)\<rparr>) (ToRoom rideId)
                             (RideEnded rideId (endTime r') (stats r'))))))"

text \<open>
  The typing handler (lines 270-279) is the one callback without a \<open>try/catch\<close>, and it
  destructures \<open>data\<close> before it tests \<open>socket.userId\<close>: without a payload the TypeError
  leaves the callback uncaught, whoever sent the event. \<open>Inl\<close> is that exception.
\<close>

definition typing :: "state \<Rightarrow> socket_id \<Rightarrow> (string \<times> bool) option \<Rightarrow> error + state" where
  "typing s sid data =
     (case data of
        None \<Rightarrow> Inl TypeError
      | Some (rideId, isTyping) \<Rightarrow>
          (case socketUser s sid of
             None \<Rightarrow> Inr s
           | Some su \<Rightarrow>
               Inr (emit s (ToRoomExcept rideId sid)
                      (UserTyping (uid su) (username su) isTyping))))"

definition disconnect :: "time \<Rightarrow> state \<Rightarrow> socket_id \<Rightarrow> state" where
  "disconnect now s sid =
     (case socketUser s sid of
        None \<Rightarrow> s
      | Some su \<Rightarrow>
          let s1 = s\<lparr>connectedUsers := (connectedUsers s)(uid su := None)\<rparr>;
              s2 = s1\<lparr>users := updateUserPresence (uid su) False now (users s1)\<rparr>;
              s3 = s2\<lparr>rideRooms :=
                        (\<lambda>rideId. case rideRooms s2 rideId of
                                     None \<Rightarrow> None
                                   | Some us \<Rightarrow> remove_member (uid su) us)\<rparr>
          in notify_friends s3 (findFriends (uid su) (users s3))
               (FriendOffline (uid su) (username su)))"

text \<open>
  The events a client sends, each with its payload if it has one, and the dispatch that
  \<open>socket.on\<close> sets up; \<open>now1\<close> and \<open>now2\<close> are the handler's clock readings. The result
  is \<open>Inr\<close> of the next state when the callback returns, and \<open>Inl\<close> of the exception when
  the callback throws: nothing catches it, and an uncaught exception ends the server
  process and with it every connection, the sender's included.
\<close>

datatype event =
    Authenticate "string option option"
  | JoinRide "string option"
  | LeaveRide "string option"
  | UpdateLocation "(string \<times> location_data) option"
  | SendMessage "message_data option"
  | StartRide "string option"
  | EndRide "string option"
  | Typing "(string \<times> bool) option"
  | Disconnect

fun handle ::
  "(string \<Rightarrow> ride_id option) \<Rightarrow> (string \<Rightarrow> user_id option) \<Rightarrow> time \<Rightarrow> time \<Rightarrow>
     state \<Rightarrow> socket_id \<Rightarrow> event \<Rightarrow> error + state" where
  "handle cast verify now1 now2 s sid (Authenticate data) =
     Inr (authenticate verify now1 s sid data)"
| "handle cast verify now1 now2 s sid (JoinRide data) = Inr (join_ride cast s sid data)"
| "handle cast verify now1 now2 s sid (LeaveRide data) = Inr (leave_ride s sid data)"
| "handle cast verify now1 now2 s sid (UpdateLocation data) =
     Inr (update_location cast now1 now2 s sid data)"
| "handle cast verify now1 now2 s sid (SendMessage data) =
     Inr (send_message cast now1 now2 s sid data)"
| "handle cast verify now1 now2 s sid (StartRide data) = Inr (start_ride cast now1 s sid data)"
| "handle cast verify now1 now2 s sid (EndRide data) = Inr (end_ride cast now1 s sid data)"
| "handle cast verify now1 now2 s sid (Typing data) = typing s sid data"
| "handle cast verify now1 now2 s sid Disconnect = Inr (disconnect now1 s sid)"

text \<open>The registered sockets of the contacts found for an identity, in the order of the
  query's result: the sockets the \<open>friends.forEach\<close> emits to.\<close>

definition friend_sockets :: "state \<Rightarrow> user_id \<Rightarrow> socket_id list" where
  "friend_sockets s k =
     List.map_filter (\<lambda>f. connectedUsers s (uid f)) (findFriends k (users s))"

section \<open>A concrete server state\<close>

text \<open>
  Three users, of whom alice and bob are accepted contacts of each other; a ride in
  PLANNING that alice organizes and bob has declined; a COMPLETED ride of alice and bob.
  Each user has one authenticated socket. The transient room of the first ride lists
  carol, who is no participant of it.
\<close>

definition alice :: user where
  "alice = \<lparr>uid = ''a'', username = ''alice'',
            friends = [\<lparr>f_user = ''b'', f_status = ACCEPTED\<rparr>], isOnline = True, lastSeen = 10\<rparr>"

definition bob :: user where
  "bob = \<lparr>uid = ''b'', username = ''bob'',
          friends = [\<lparr>f_user = ''a'', f_status = ACCEPTED\<rparr>], isOnline = True, lastSeen = 20\<rparr>"

definition carol :: user where
  "carol = \<lparr>uid = ''c'', username = ''carol'', friends = [], isOnline = True, lastSeen = 30\<rparr>"

definition ride1 :: ride where
  "ride1 = \<lparr>rid = ''r1'', organizer = ''a'', status = PLANNING, startTime = 100, endTime = None,
            participants =
              [\<lparr>p_user = ''a'', p_status = CONFIRMED, currentLocation = None, p_isOnline = False\<rparr>,
               \<lparr>p_user = ''b'', p_status = DECLINED, currentLocation = None, p_isOnline = False\<rparr>],
            chat = [], stats = \<lparr>duration = 0\<rparr>\<rparr>"

definition ride2 :: ride where
  "ride2 = \<lparr>rid = ''r2'', organizer = ''a'', status = COMPLETED, startTime = 100,
            endTime = Some 200,
            participants =
              [\<lparr>p_user = ''a'', p_status = JOINED, currentLocation = None, p_isOnline = False\<rparr>,
               \<lparr>p_user = ''b'', p_status = JOINED, currentLocation = None, p_isOnline = False\<rparr>],
            chat = [], stats = \<lparr>duration = 100\<rparr>\<rparr>"

definition demo :: state where
  "demo = \<lparr>users = [alice, bob, carol], rides = [ride1, ride2],
           connectedUsers = [''a'' \<mapsto> ''s1'', ''b'' \<mapsto> ''s2'', ''c'' \<mapsto> ''s3''],
           rideRooms = [''r1'' \<mapsto> {''b'', ''c''}, ''r2'' \<mapsto> {''b''}],
           socketUser = [''s1'' \<mapsto> alice, ''s2'' \<mapsto> bob, ''s3'' \<mapsto> carol],
           ioRooms = (\<lambda>r. if r = ''r1'' then {''s1'', ''s2''} else {}),
           outbox = []\<rparr>"

definition loc0 :: location_data where
  "loc0 = \<lparr>ld_coordinates = (52, 21), ld_speed = Some 30, ld_heading = None\<rparr>"

text \<open>A cast that takes the two stored ride ids and \<open>r7\<close>, an id with no ride, as they
  are, reads \<open>R1\<close> as the first ride's id, and fails on every other string.\<close>

definition cast0 :: "string \<Rightarrow> ride_id option" where
  "cast0 k = (if k = ''r1'' \<or> k = ''R1'' then Some ''r1''
              else if k = ''r2'' then Some ''r2''
              else if k = ''r7'' then Some ''r7'' else None)"

definition verify0 :: "string \<Rightarrow> user_id option" where
  "verify0 tok = (if tok = ''tok-a'' then Some ''a'' else if tok = ''tok-b'' then Some ''b'' else None)"

definition long_message :: message_data where
  "long_message = \<lparr>m_rideId = ''r1'', m_message = replicate 501 (CHR ''x''),
                   m_type = None, m_timestamp = None\<rparr>"

definition hello :: message_data where
  "hello = \<lparr>m_rideId = ''r1'', m_message = ''hello'', m_type = None, m_timestamp = Some 7\<rparr>"

lemmas demo_defs = demo_def alice_def bob_def carol_def ride1_def ride2_def

section \<open>Car: a single primary photo\<close>

lemma keep_first_primary_found:
  "filter isPrimary (keep_first_primary True ps) = []"
  by (induction ps) auto

lemma keep_first_primary_count:
  "length (filter isPrimary (keep_first_primary False ps)) \<le> 1"
  by (induction ps) (auto simp: keep_first_primary_found)

lemma car_pre_save_count: "primary_count (car_pre_save c) \<le> 1"
  using keep_first_primary_count [of "photos c"]
  by (auto simp: primary_count_def car_pre_save_def Let_def)

lemma filter_cleared:
  "filter isPrimary (map (\<lambda>photo. photo\<lparr>isPrimary := False\<rparr>) ps) = []"
  by (induction ps) auto

lemma car_pre_save_id: "primary_count c \<le> 1 \<Longrightarrow> car_pre_save c = c"
  by (simp add: primary_count_def car_pre_save_def Let_def)

text \<open>
  C10. Whatever a save of a Car writes has at most one photo with \<open>isPrimary\<close> true
  (also when several photos carried the flag before the save, and also after
  \<open>addPhoto\<close>); and \<open>addPhoto\<close> of a primary photo that passes validation writes the
  previously stored photos with the flag cleared, followed by the new photo unchanged.
\<close>

theorem car_save_single_primary:
  "(car_save valid c = Inr c' \<longrightarrow> primary_count c' \<le> 1) \<and>
   (addPhoto photoData c = Inr c' \<longrightarrow> primary_count c' \<le> 1) \<and>
   (isPrimary photoData \<and> photo_valid photoData \<longrightarrow>
      addPhoto photoData c =
        Inr (c\<lparr>photos := map (\<lambda>photo. photo\<lparr>isPrimary := False\<rparr>) (photos c) @ [photoData]\<rparr>))"
proof (intro conjI impI)
  assume "car_save valid c = Inr c'"
  then show "primary_count c' \<le> 1"
    using car_pre_save_count by (auto simp: car_save_def split: if_splits)
next
  assume "addPhoto photoData c = Inr c'"
  then show "primary_count c' \<le> 1"
    using car_pre_save_count by (auto simp: addPhoto_def car_save_def Let_def split: if_splits)
next
  assume a: "isPrimary photoData \<and> photo_valid photoData"
  let ?c = "c\<lparr>photos := map (\<lambda>photo. photo\<lparr>isPrimary := False\<rparr>) (photos c) @ [photoData]\<rparr>"
  have "primary_count ?c \<le> 1"
    by (simp add: primary_count_def filter_cleared)
  then have "car_pre_save ?c = ?c" by (rule car_pre_save_id)
  with a show "addPhoto photoData c = Inr ?c"
    by (simp add: addPhoto_def car_save_def)
qed

theorem car_save_single_primary_witness:
  "car_save True \<lparr>photos = [\<lparr>url = ''a'', caption = None, isPrimary = True, uploadedAt = 1\<rparr>,
                              \<lparr>url = ''b'', caption = None, isPrimary = True, uploadedAt = 2\<rparr>]\<rparr>
     = Inr \<lparr>photos = [\<lparr>url = ''a'', caption = None, isPrimary = True, uploadedAt = 1\<rparr>,
                      \<lparr>url = ''b'', caption = None, isPrimary = False, uploadedAt = 2\<rparr>]\<rparr>
   \<and> primary_count \<lparr>photos = [\<lparr>url = ''a'', caption = None, isPrimary = True, uploadedAt = 1\<rparr>,
                      \<lparr>url = ''b'', caption = None, isPrimary = False, uploadedAt = 2\<rparr>]\<rparr> \<le> 1
   \<and> addPhoto \<lparr>url = ''c'', caption = None, isPrimary = True, uploadedAt = 3\<rparr>
        \<lparr>photos = [\<lparr>url = ''a'', caption = None, isPrimary = True, uploadedAt = 1\<rparr>,
                   \<lparr>url = ''b'', caption = None, isPrimary = True, uploadedAt = 2\<rparr>]\<rparr>
     = Inr \<lparr>photos = [\<lparr>url = ''a'', caption = None, isPrimary = False, uploadedAt = 1\<rparr>,
                      \<lparr>url = ''b'', caption = None, isPrimary = False, uploadedAt = 2\<rparr>,
                      \<lparr>url = ''c'', caption = None, isPrimary = True, uploadedAt = 3\<rparr>]\<rparr>"
  using car_save_single_primary
    [of True "\<lparr>photos = [\<lparr>url = ''a'', caption = None, isPrimary = True, uploadedAt = 1\<rparr>,
                         \<lparr>url = ''b'', caption = None, isPrimary = True, uploadedAt = 2\<rparr>]\<rparr>"
        "\<lparr>photos = [\<lparr>url = ''a'', caption = None, isPrimary = True, uploadedAt = 1\<rparr>,
                    \<lparr>url = ''b'', caption = None, isPrimary = False, uploadedAt = 2\<rparr>]\<rparr>"
        "\<lparr>url = ''c'', caption = None, isPrimary = True, uploadedAt = 3\<rparr>"]
  by (simp add: car_save_def car_pre_save_def photo_valid_def)

section \<open>The ride session: start, end, location, chat\<close>

lemma find_persist:
  "find (\<lambda>d. rid d = c) rs = Some r \<Longrightarrow> rid r' = c \<Longrightarrow>
   find (\<lambda>d. rid d = c) (persist r' rs) = Some r'"
  by (induction rs) (auto simp: persist_def split: if_splits)

lemma findRideById_persist:
  "findRideById cast k rs = Inr (Some r) \<Longrightarrow> rid r' = rid r \<Longrightarrow>
   findRideById cast k (persist r' rs) = Inr (Some r')"
  using find_persist [of "rid r" rs r r']
  by (auto simp: findRideById_def find_Some_iff split: option.splits)

lemma ride_pre_save_fields:
  "rid (ride_pre_save r) = rid r" "organizer (ride_pre_save r) = organizer r"
  "status (ride_pre_save r) = status r" "startTime (ride_pre_save r) = startTime r"
  "endTime (ride_pre_save r) = endTime r" "participants (ride_pre_save r) = participants r"
  "chat (ride_pre_save r) = chat r"
  by (simp_all add: ride_pre_save_def split: option.splits)

lemma emit_fields:
  "users (emit s tg ev) = users s" "rides (emit s tg ev) = rides s"
  "connectedUsers (emit s tg ev) = connectedUsers s" "rideRooms (emit s tg ev) = rideRooms s"
  "socketUser (emit s tg ev) = socketUser s" "ioRooms (emit s tg ev) = ioRooms s"
  "outbox (emit s tg ev) = outbox s @ [(tg, ev)]"
  by (simp_all add: emit_def)

text \<open>
  C1, as the code has it. For a start_ride request of an authenticated connection on an
  existing session: when the requester is not the session's organizer the only effect is
  an error event to the requester, and the stored session is unchanged; when the requester
  is the organizer the request succeeds whatever the session's status is: the stored
  session becomes ACTIVE with the server's time as its start time (organizer,
  participants, chat and end time as before), and one ride_started event carrying that
  time goes to the whole room, the sender's socket included when it is in the room.
\<close>

theorem start_ride_organizer_only:
  assumes auth: "socketUser s sid = Some su"
    and found: "findRideById cast rideId (rides s) = Inr (Some r)"
  shows "(organizer r \<noteq> uid su \<longrightarrow>
            start_ride cast now s sid (Some rideId) =
              emit s (ToSocket sid) (Error ''Only organizer can start ride'')
          \<and> rides (start_ride cast now s sid (Some rideId)) = rides s)
       \<and> (organizer r = uid su \<longrightarrow>
            (\<exists>r'. findRideById cast rideId (rides (start_ride cast now s sid (Some rideId)))
                     = Inr (Some r')
                \<and> status r' = ACTIVE \<and> startTime r' = now
                \<and> organizer r' = organizer r \<and> participants r' = participants r
                \<and> chat r' = chat r \<and> endTime r' = endTime r)
          \<and> outbox (start_ride cast now s sid (Some rideId)) =
              outbox s @ [(ToRoom rideId, RideStarted rideId now)]
          \<and> recipients (start_ride cast now s sid (Some rideId)) (ToRoom rideId)
              = ioRooms s rideId)"
proof (intro conjI impI)
  assume "organizer r \<noteq> uid su"
  with auth found show "start_ride cast now s sid (Some rideId) =
      emit s (ToSocket sid) (Error ''Only organizer can start ride'')"
    and "rides (start_ride cast now s sid (Some rideId)) = rides s"
    by (simp_all add: start_ride_def emit_fields)
next
  assume org: "organizer r = uid su"
  let ?r' = "ride_pre_save (r\<lparr>status := ACTIVE, startTime := now\<rparr>)"
  have run: "start_ride cast now s sid (Some rideId) =
      emit (s\<lparr>rides := persist ?r' (rides s)\<rparr>) (ToRoom rideId) (RideStarted rideId now)"
    using auth found org
    by (simp add: start_ride_def startRide_def ride_save_def ride_pre_save_fields)
  have "rid ?r' = rid r"
    by (simp add: ride_pre_save_fields)
  with found have "findRideById cast rideId (persist ?r' (rides s)) = Inr (Some ?r')"
    by (rule findRideById_persist)
  then show "\<exists>r'. findRideById cast rideId (rides (start_ride cast now s sid (Some rideId)))
                     = Inr (Some r')
                \<and> status r' = ACTIVE \<and> startTime r' = now
                \<and> organizer r' = organizer r \<and> participants r' = participants r
                \<and> chat r' = chat r \<and> endTime r' = endTime r"
    by (simp add: run emit_fields ride_pre_save_fields)
  show "outbox (start_ride cast now s sid (Some rideId)) =
              outbox s @ [(ToRoom rideId, RideStarted rideId now)]"
    by (simp add: run emit_fields)
  show "recipients (start_ride cast now s sid (Some rideId)) (ToRoom rideId) = ioRooms s rideId"
    by (simp add: run emit_fields)
qed

theorem start_ride_organizer_only_witness:
  "socketUser demo ''s2'' = Some bob \<and>
   findRideById cast0 ''r1'' (rides demo) = Inr (Some ride1) \<and>
   organizer ride1 \<noteq> uid bob \<and>
   start_ride cast0 300 demo ''s2'' (Some ''r1'') =
     emit demo (ToSocket ''s2'') (Error ''Only organizer can start ride'') \<and>
   socketUser demo ''s1'' = Some alice \<and> organizer ride1 = uid alice \<and>
   outbox (start_ride cast0 300 demo ''s1'' (Some ''r1''))
     = [(ToRoom ''r1'', RideStarted ''r1'' 300)]"
proof -
  have a: "socketUser demo ''s2'' = Some bob" "socketUser demo ''s1'' = Some alice"
    by (simp_all add: demo_def)
  have f: "findRideById cast0 ''r1'' (rides demo) = Inr (Some ride1)"
    by (simp add: demo_defs findRideById_def cast0_def)
  have o: "organizer ride1 \<noteq> uid bob" "organizer ride1 = uid alice" "outbox demo = []"
    by (simp_all add: demo_defs)
  show ?thesis
    using start_ride_organizer_only [OF a(1) f, of 300]
      start_ride_organizer_only [OF a(2) f, of 300] a f o
    by simp
qed

text \<open>The status is not checked: the organizer starts a COMPLETED session again.\<close>

theorem start_ride_status_counterexample:
  "status ride2 = COMPLETED \<and> organizer ride2 = uid alice \<and>
   socketUser demo ''s1'' = Some alice \<and>
   findRideById cast0 ''r2'' (rides demo) = Inr (Some ride2) \<and>
   findRideById cast0 ''r2'' (rides (start_ride cast0 300 demo ''s1'' (Some ''r2'')))
     = Inr (Some (ride2\<lparr>status := ACTIVE, startTime := 300, stats := \<lparr>duration = - 100\<rparr>\<rparr>)) \<and>
   outbox (start_ride cast0 300 demo ''s1'' (Some ''r2''))
     = [(ToRoom ''r2'', RideStarted ''r2'' 300)]"
  by (simp add: demo_defs cast0_def start_ride_def startRide_def ride_save_def ride_pre_save_def
      findRideById_def persist_def emit_def)

text \<open>
  C2, as the code has it. An end_ride request of the organizer's authenticated connection
  on an existing session succeeds whatever the session's status is: the stored session is
  COMPLETED, its end time is the server's time of this call, the duration is recomputed
  from it, and a ride_ended event with that end time and the statistics goes to the whole
  room. On a session that is COMPLETED already the end time is therefore stamped again.
\<close>

theorem end_ride_restamps:
  assumes auth: "socketUser s sid = Some su"
    and found: "findRideById cast rideId (rides s) = Inr (Some r)"
    and org: "organizer r = uid su"
  shows "(\<exists>r'. findRideById cast rideId (rides (end_ride cast now s sid (Some rideId)))
                 = Inr (Some r')
            \<and> status r' = COMPLETED \<and> endTime r' = Some now
            \<and> duration (stats r') = now - startTime r)
       \<and> outbox (end_ride cast now s sid (Some rideId)) =
            outbox s @ [(ToRoom rideId, RideEnded rideId (Some now) \<lparr>duration = now - startTime r\<rparr>)]"
proof -
  let ?r' = "ride_pre_save (r\<lparr>status := COMPLETED, endTime := Some now\<rparr>)"
  have st: "stats ?r' = \<lparr>duration = now - startTime r\<rparr>"
    by (simp add: ride_pre_save_def)
  have run: "end_ride cast now s sid (Some rideId) =
      emit (s\<lparr>rides := persist ?r' (rides s)\<rparr>) (ToRoom rideId)
        (RideEnded rideId (Some now) \<lparr>duration = now - startTime r\<rparr>)"
    using auth found org
    by (simp add: end_ride_def endRide_def ride_save_def ride_pre_save_fields st)
  have "rid ?r' = rid r"
    by (simp add: ride_pre_save_fields)
  with found have "findRideById cast rideId (persist ?r' (rides s)) = Inr (Some ?r')"
    by (rule findRideById_persist)
  then show ?thesis
    by (simp add: run emit_fields ride_pre_save_fields st)
qed

theorem end_ride_restamps_witness:
  "socketUser demo ''s1'' = Some alice \<and>
   findRideById cast0 ''r2'' (rides demo) = Inr (Some ride2) \<and>
   organizer ride2 = uid alice \<and>
   outbox (end_ride cast0 300 demo ''s1'' (Some ''r2''))
     = [(ToRoom ''r2'', RideEnded ''r2'' (Some 300) \<lparr>duration = 200\<rparr>)]"
proof -
  have a: "socketUser demo ''s1'' = Some alice" by (simp add: demo_def)
  have f: "findRideById cast0 ''r2'' (rides demo) = Inr (Some ride2)"
    by (simp add: demo_defs findRideById_def cast0_def)
  have o: "organizer ride2 = uid alice" "outbox demo = []" "startTime ride2 = 100"
    by (simp_all add: demo_defs)
  show ?thesis
    using end_ride_restamps [OF a f o(1), of 300] a f o by simp
qed

text \<open>A COMPLETED session with end time 200 is ended again at 300 and at 400: both
  calls succeed, each re-stamps the end time, and no error is emitted.\<close>

theorem end_ride_completed_counterexample:
  "socketUser demo ''s1'' = Some alice \<and>
   findRideById cast0 ''r2'' (rides demo) = Inr (Some ride2) \<and>
   organizer ride2 = uid alice \<and> status ride2 = COMPLETED \<and> endTime ride2 = Some 200 \<and>
   findRideById cast0 ''r2'' (rides (end_ride cast0 300 demo ''s1'' (Some ''r2'')))
     = Inr (Some (ride2\<lparr>endTime := Some 300, stats := \<lparr>duration = 200\<rparr>\<rparr>)) \<and>
   outbox (end_ride cast0 300 demo ''s1'' (Some ''r2''))
     = [(ToRoom ''r2'', RideEnded ''r2'' (Some 300) \<lparr>duration = 200\<rparr>)] \<and>
   outbox (end_ride cast0 400 (end_ride cast0 300 demo ''s1'' (Some ''r2'')) ''s1'' (Some ''r2''))
     = [(ToRoom ''r2'', RideEnded ''r2'' (Some 300) \<lparr>duration = 200\<rparr>),
        (ToRoom ''r2'', RideEnded ''r2'' (Some 400) \<lparr>duration = 300\<rparr>)]"
  by (simp add: demo_defs cast0_def end_ride_def endRide_def ride_save_def ride_pre_save_def
      findRideById_def persist_def emit_def)

lemma update_first_find:
  "find P xs = Some x \<Longrightarrow> (\<And>y. P y \<Longrightarrow> P (f y)) \<Longrightarrow> find P (update_first P f xs) = Some (f x)"
  by (induction xs) (auto split: if_splits)

text \<open>
  C3, as the code has it. For an update_location of an authenticated connection on an
  existing session in which the caller has a persisted Participant record, whatever the
  record's status and the session's status are: the first record of the caller gets the
  sent coordinates, speed and heading with the server's time, and its online flag set;
  the session is saved with its status unchanged; and one participant_location event,
  with a server timestamp, goes to the room except the sender.
\<close>

theorem update_location_any_status:
  assumes auth: "socketUser s sid = Some su"
    and found: "findRideById cast rideId (rides s) = Inr (Some r)"
    and part: "find (\<lambda>p. p_user p = uid su) (participants r) = Some p"
  shows "(\<exists>r'. findRideById cast rideId
                   (rides (update_location cast now1 now2 s sid (Some (rideId, loc))))
                 = Inr (Some r')
            \<and> status r' = status r
            \<and> find (\<lambda>p. p_user p = uid su) (participants r') =
                Some (p\<lparr>currentLocation :=
                          Some \<lparr>coordinates = ld_coordinates loc, timestamp = now1,
                                speed = or0 (ld_speed loc), heading = or0 (ld_heading loc)\<rparr>,
                        p_isOnline := True\<rparr>))
       \<and> outbox (update_location cast now1 now2 s sid (Some (rideId, loc))) =
            outbox s @ [(ToRoomExcept rideId sid,
                         ParticipantLocation (uid su) (username su)
                           \<lparr>coordinates = ld_coordinates loc, timestamp = now2,
                            speed = or0 (ld_speed loc), heading = or0 (ld_heading loc)\<rparr>)]
       \<and> recipients (update_location cast now1 now2 s sid (Some (rideId, loc)))
            (ToRoomExcept rideId sid)
            = ioRooms s rideId - {sid}"
proof -
  let ?f = "\<lambda>p. p\<lparr>currentLocation :=
                        Some \<lparr>coordinates = ld_coordinates loc, timestamp = now1,
                              speed = or0 (ld_speed loc), heading = or0 (ld_heading loc)\<rparr>,
                      p_isOnline := True\<rparr>"
  let ?r' = "ride_pre_save (r\<lparr>participants :=
               update_first (\<lambda>p. p_user p = uid su) ?f (participants r)\<rparr>)"
  have run: "update_location cast now1 now2 s sid (Some (rideId, loc)) =
      emit (s\<lparr>rides := persist ?r' (rides s)\<rparr>) (ToRoomExcept rideId sid)
        (ParticipantLocation (uid su) (username su)
           \<lparr>coordinates = ld_coordinates loc, timestamp = now2,
            speed = or0 (ld_speed loc), heading = or0 (ld_heading loc)\<rparr>)"
    using auth found
    by (simp add: update_location_def updateParticipantLocation_def ride_save_def)
  have "rid ?r' = rid r"
    by (simp add: ride_pre_save_fields)
  with found have stored: "findRideById cast rideId (persist ?r' (rides s)) = Inr (Some ?r')"
    by (rule findRideById_persist)
  have "find (\<lambda>p. p_user p = uid su) (participants ?r') = Some (?f p)"
    using update_first_find [OF part, of ?f] by (simp add: ride_pre_save_fields)
  with stored show ?thesis
    by (simp add: run emit_fields ride_pre_save_fields)
qed

theorem update_location_any_status_witness:
  "socketUser demo ''s2'' = Some bob \<and>
   findRideById cast0 ''r1'' (rides demo) = Inr (Some ride1) \<and>
   find (\<lambda>p. p_user p = uid bob) (participants ride1)
     = Some \<lparr>p_user = ''b'', p_status = DECLINED, currentLocation = None, p_isOnline = False\<rparr> \<and>
   recipients (update_location cast0 300 301 demo ''s2'' (Some (''r1'', loc0)))
     (ToRoomExcept ''r1'' ''s2'') = {''s1''}"
proof -
  have a: "socketUser demo ''s2'' = Some bob" by (simp add: demo_def)
  have f: "findRideById cast0 ''r1'' (rides demo) = Inr (Some ride1)"
    by (simp add: demo_defs findRideById_def cast0_def)
  have p: "find (\<lambda>p. p_user p = uid bob) (participants ride1)
     = Some \<lparr>p_user = ''b'', p_status = DECLINED, currentLocation = None, p_isOnline = False\<rparr>"
    by (simp add: demo_defs)
  have io: "ioRooms demo ''r1'' - {''s2''} = {''s1''}"
    by (auto simp: demo_def)
  show ?thesis
    using update_location_any_status [OF a f p, of 300 301 loc0] a f p io by simp
qed

text \<open>Neither status is checked: bob, who has DECLINED a session that is still in
  PLANNING, updates his location there and the room is told.\<close>

theorem update_location_status_counterexample:
  "socketUser demo ''s2'' = Some bob \<and>
   findRideById cast0 ''r1'' (rides demo) = Inr (Some ride1) \<and>
   status ride1 = PLANNING \<and>
   find (\<lambda>p. p_user p = uid bob) (participants ride1)
     = Some \<lparr>p_user = ''b'', p_status = DECLINED, currentLocation = None, p_isOnline = False\<rparr> \<and>
   map_sum id (map_option participants)
     (findRideById cast0 ''r1''
        (rides (update_location cast0 300 301 demo ''s2'' (Some (''r1'', loc0)))))
     = Inr (Some [\<lparr>p_user = ''a'', p_status = CONFIRMED, currentLocation = None, p_isOnline = False\<rparr>,
             \<lparr>p_user = ''b'', p_status = DECLINED,
              currentLocation = Some \<lparr>coordinates = (52, 21), timestamp = 300, speed = 30, heading = 0\<rparr>,
              p_isOnline = True\<rparr>]) \<and>
   outbox (update_location cast0 300 301 demo ''s2'' (Some (''r1'', loc0)))
     = [(ToRoomExcept ''r1'' ''s2'',
         ParticipantLocation ''b'' ''bob''
           \<lparr>coordinates = (52, 21), timestamp = 301, speed = 30, heading = 0\<rparr>)]"
  by (simp add: demo_defs cast0_def loc0_def update_location_def updateParticipantLocation_def
      ride_save_def ride_pre_save_def findRideById_def persist_def emit_def or0_def)

text \<open>
  C8, as the code has it. For a send_message of an authenticated connection on an
  existing session: when the text is non-empty and of at most 500 characters and the kind
  (TEXT when absent) is TEXT, SYSTEM or LOCATION, the entry, stamped with the server's
  time, is appended to the stored chat log and one new_message event with a server
  timestamp goes to the whole room; otherwise the save is rejected, nothing is stored or
  broadcast and the sender gets an error event. A timestamp supplied by the client has no
  influence on either.
\<close>

theorem send_message_valid:
  assumes auth: "socketUser s sid = Some su"
    and found: "findRideById cast (m_rideId d) (rides s) = Inr (Some r)"
  shows "(m_message d \<noteq> [] \<and> length (m_message d) \<le> 500 \<and>
          type_or_default (m_type d) \<in> set [''TEXT'', ''SYSTEM'', ''LOCATION''] \<longrightarrow>
            (\<exists>r'. findRideById cast (m_rideId d)
                     (rides (send_message cast now1 now2 s sid (Some d))) = Inr (Some r')
                \<and> chat r' = chat r @ [\<lparr>c_user = uid su, c_message = m_message d,
                                        c_timestamp = now1, c_type = type_or_default (m_type d)\<rparr>])
          \<and> outbox (send_message cast now1 now2 s sid (Some d)) =
              outbox s @ [(ToRoom (m_rideId d),
                           NewMessage (uid su) (username su) (m_message d)
                             (type_or_default (m_type d)) now2)]
          \<and> recipients (send_message cast now1 now2 s sid (Some d)) (ToRoom (m_rideId d))
              = ioRooms s (m_rideId d))
       \<and> (\<not> (m_message d \<noteq> [] \<and> length (m_message d) \<le> 500 \<and>
             type_or_default (m_type d) \<in> set [''TEXT'', ''SYSTEM'', ''LOCATION'']) \<longrightarrow>
            send_message cast now1 now2 s sid (Some d) =
              emit s (ToSocket sid) (Error ''Failed to send message''))
       \<and> send_message cast now1 now2 s sid (Some (d\<lparr>m_timestamp := clientTime\<rparr>))
            = send_message cast now1 now2 s sid (Some d)"
proof (intro conjI impI)
  let ?e = "\<lparr>c_user = uid su, c_message = m_message d, c_timestamp = now1,
             c_type = type_or_default (m_type d)\<rparr>"
  let ?r' = "ride_pre_save (r\<lparr>chat := chat r @ [?e]\<rparr>)"
  assume v: "m_message d \<noteq> [] \<and> length (m_message d) \<le> 500 \<and>
          type_or_default (m_type d) \<in> set [''TEXT'', ''SYSTEM'', ''LOCATION'']"
  then have cv: "chat_valid ?e" by (simp add: chat_valid_def)
  have run: "send_message cast now1 now2 s sid (Some d) =
      emit (s\<lparr>rides := persist ?r' (rides s)\<rparr>) (ToRoom (m_rideId d))
        (NewMessage (uid su) (username su) (m_message d) (type_or_default (m_type d)) now2)"
    using auth found cv
    by (simp add: send_message_def addChatMessage_def ride_save_def Let_def)
  have "rid ?r' = rid r"
    by (simp add: ride_pre_save_fields)
  with found have "findRideById cast (m_rideId d) (persist ?r' (rides s)) = Inr (Some ?r')"
    by (rule findRideById_persist)
  then show "\<exists>r'. findRideById cast (m_rideId d)
                     (rides (send_message cast now1 now2 s sid (Some d))) = Inr (Some r')
                \<and> chat r' = chat r @ [?e]"
    by (simp add: run emit_fields ride_pre_save_fields)
  show "outbox (send_message cast now1 now2 s sid (Some d)) =
              outbox s @ [(ToRoom (m_rideId d),
                           NewMessage (uid su) (username su) (m_message d)
                             (type_or_default (m_type d)) now2)]"
    by (simp add: run emit_fields)
  show "recipients (send_message cast now1 now2 s sid (Some d)) (ToRoom (m_rideId d))
      = ioRooms s (m_rideId d)"
    by (simp add: run emit_fields)
next
  let ?e = "\<lparr>c_user = uid su, c_message = m_message d, c_timestamp = now1,
             c_type = type_or_default (m_type d)\<rparr>"
  assume "\<not> (m_message d \<noteq> [] \<and> length (m_message d) \<le> 500 \<and>
             type_or_default (m_type d) \<in> set [''TEXT'', ''SYSTEM'', ''LOCATION''])"
  then have "\<not> chat_valid ?e" by (simp add: chat_valid_def)
  then show "send_message cast now1 now2 s sid (Some d) =
              emit s (ToSocket sid) (Error ''Failed to send message'')"
    using auth found
    by (simp add: send_message_def addChatMessage_def ride_save_def Let_def)
next
  show "send_message cast now1 now2 s sid (Some (d\<lparr>m_timestamp := clientTime\<rparr>))
            = send_message cast now1 now2 s sid (Some d)"
    by (simp add: send_message_def)
qed

theorem send_message_valid_witness:
  "socketUser demo ''s1'' = Some alice \<and>
   findRideById cast0 (m_rideId hello) (rides demo) = Inr (Some ride1) \<and>
   m_message hello \<noteq> [] \<and> length (m_message hello) \<le> 500 \<and>
   type_or_default (m_type hello) \<in> set [''TEXT'', ''SYSTEM'', ''LOCATION''] \<and>
   outbox (send_message cast0 300 301 demo ''s1'' (Some hello))
     = [(ToRoom ''r1'', NewMessage ''a'' ''alice'' ''hello'' ''TEXT'' 301)] \<and>
   \<not> (m_message long_message \<noteq> [] \<and> length (m_message long_message) \<le> 500 \<and>
      type_or_default (m_type long_message) \<in> set [''TEXT'', ''SYSTEM'', ''LOCATION'']) \<and>
   findRideById cast0 (m_rideId long_message) (rides demo) = Inr (Some ride1) \<and>
   send_message cast0 300 301 demo ''s1'' (Some long_message)
     = emit demo (ToSocket ''s1'') (Error ''Failed to send message'')"
proof -
  have a: "socketUser demo ''s1'' = Some alice" by (simp add: demo_def)
  have f: "findRideById cast0 (m_rideId hello) (rides demo) = Inr (Some ride1)"
    "findRideById cast0 (m_rideId long_message) (rides demo) = Inr (Some ride1)"
    by (simp_all add: demo_defs hello_def long_message_def findRideById_def cast0_def)
  have v: "m_message hello \<noteq> [] \<and> length (m_message hello) \<le> 500 \<and>
     type_or_default (m_type hello) \<in> set [''TEXT'', ''SYSTEM'', ''LOCATION'']"
    by (simp add: hello_def type_or_default_def)
  have nv: "\<not> (m_message long_message \<noteq> [] \<and> length (m_message long_message) \<le> 500 \<and>
      type_or_default (m_type long_message) \<in> set [''TEXT'', ''SYSTEM'', ''LOCATION''])"
    by (simp add: long_message_def)
  have h: "m_rideId hello = ''r1''" "m_message hello = ''hello''" "m_type hello = None"
    "uid alice = ''a''" "username alice = ''alice''" "outbox demo = []"
    by (simp_all add: hello_def demo_defs)
  show ?thesis
    using send_message_valid [OF a f(1), of 300 301] send_message_valid [OF a f(2), of 300 301]
      a f v nv h
    by (simp add: type_or_default_def)
qed

text \<open>A message of 501 characters is neither stored nor broadcast.\<close>

theorem send_message_every_counterexample:
  "socketUser demo ''s1'' = Some alice \<and>
   findRideById cast0 ''r1'' (rides demo) = Inr (Some ride1) \<and>
   length (m_message long_message) = 501 \<and>
   rides (send_message cast0 300 301 demo ''s1'' (Some long_message)) = rides demo \<and>
   outbox (send_message cast0 300 301 demo ''s1'' (Some long_message))
     = [(ToSocket ''s1'', Error ''Failed to send message'')]"
  by (simp add: demo_defs cast0_def long_message_def send_message_def addChatMessage_def
      ride_save_def chat_valid_def type_or_default_def findRideById_def emit_def Let_def)

section \<open>Presence\<close>

lemma notify_friends_eq:
  "notify_friends s fs ev =
     s\<lparr>outbox := outbox s @
          map (\<lambda>k. (ToSocket k, ev)) (List.map_filter (\<lambda>f. connectedUsers s (uid f)) fs)\<rparr>"
proof (induction fs arbitrary: s)
  case Nil
  show ?case by (simp add: notify_friends_def List.map_filter_simps)
next
  case (Cons f fs)
  have step: "notify_friends s (f # fs) ev =
      notify_friends (case connectedUsers s (uid f) of None \<Rightarrow> s
                      | Some k \<Rightarrow> emit s (ToSocket k) ev) fs ev"
    by (simp add: notify_friends_def)
  show ?case
    by (cases "connectedUsers s (uid f)")
       (simp_all add: step Cons.IH List.map_filter_simps emit_def)
qed

lemma findUserById_updateUserPresence:
  "findUserById k (updateUserPresence k b now us) =
     map_option (\<lambda>u. u\<lparr>isOnline := b, lastSeen := now\<rparr>) (findUserById k us)"
  by (induction us) (auto simp: findUserById_def updateUserPresence_def)

lemma join_rooms_fields:
  "users (foldl (\<lambda>acc r. join_room acc sid (rid r) u) s rs) = users s"
  "connectedUsers (foldl (\<lambda>acc r. join_room acc sid (rid r) u) s rs) = connectedUsers s"
  "socketUser (foldl (\<lambda>acc r. join_room acc sid (rid r) u) s rs) = socketUser s"
  "outbox (foldl (\<lambda>acc r. join_room acc sid (rid r) u) s rs) = outbox s"
  "rides (foldl (\<lambda>acc r. join_room acc sid (rid r) u) s rs) = rides s"
  by (induction rs arbitrary: s) (simp_all add: join_room_def)

text \<open>
  C4, as the code has it. The registry holds one socket per identity. A successful
  authenticate maps the identity to the authenticating socket, replacing any socket
  registered before, and stores the identity as online. The disconnect of any
  authenticated socket removes the mapping of its identity, stores the identity as
  offline with the server's time as last-seen, and emits one friend_offline to the
  registered socket of each contact found, whether or not the identity has another
  socket open.
\<close>

theorem presence_single_connection:
  "(tok \<noteq> [] \<and> verify tok = Some k \<and> findUserById k (users s) = Some usr \<longrightarrow>
      connectedUsers (authenticate verify now s sid (Some (Some tok))) k = Some sid \<and>
      socketUser (authenticate verify now s sid (Some (Some tok))) sid = Some usr \<and>
      findUserById k (users (authenticate verify now s sid (Some (Some tok))))
        = Some (usr\<lparr>isOnline := True, lastSeen := now\<rparr>))
   \<and> (socketUser s sid = Some su \<longrightarrow>
      connectedUsers (disconnect now s sid) (uid su) = None \<and>
      findUserById (uid su) (users (disconnect now s sid))
        = map_option (\<lambda>u. u\<lparr>isOnline := False, lastSeen := now\<rparr>) (findUserById (uid su) (users s)) \<and>
      outbox (disconnect now s sid)
        = outbox s @ map (\<lambda>fs. (ToSocket fs, FriendOffline (uid su) (username su)))
                       (friend_sockets (disconnect now s sid) (uid su)))"
proof (intro conjI impI)
  assume h: "tok \<noteq> [] \<and> verify tok = Some k \<and> findUserById k (users s) = Some usr"
  then have k: "uid usr = k"
    by (auto simp: findUserById_def find_Some_iff)
  let ?s' = "authenticate verify now s sid (Some (Some tok))"
  show "connectedUsers ?s' k = Some sid"
    using h k by (simp add: authenticate_def Let_def notify_friends_eq emit_def join_rooms_fields)
  show "socketUser ?s' sid = Some usr"
    using h k by (simp add: authenticate_def Let_def notify_friends_eq emit_def join_rooms_fields)
  show "findUserById k (users ?s') = Some (usr\<lparr>isOnline := True, lastSeen := now\<rparr>)"
    using h k by (simp add: authenticate_def Let_def notify_friends_eq emit_def join_rooms_fields
        findUserById_updateUserPresence)
next
  assume h: "socketUser s sid = Some su"
  let ?s' = "disconnect now s sid"
  show "connectedUsers ?s' (uid su) = None"
    using h by (simp add: disconnect_def Let_def notify_friends_eq)
  show "findUserById (uid su) (users ?s')
        = map_option (\<lambda>u. u\<lparr>isOnline := False, lastSeen := now\<rparr>) (findUserById (uid su) (users s))"
    using h by (simp add: disconnect_def Let_def notify_friends_eq findUserById_updateUserPresence)
  show "outbox ?s' = outbox s @ map (\<lambda>fs. (ToSocket fs, FriendOffline (uid su) (username su)))
                       (friend_sockets ?s' (uid su))"
    using h by (simp add: disconnect_def Let_def notify_friends_eq friend_sockets_def)
qed

theorem presence_single_connection_witness:
  "''tok-a'' \<noteq> [] \<and> verify0 ''tok-a'' = Some ''a'' \<and> findUserById ''a'' (users demo) = Some alice \<and>
   connectedUsers (authenticate verify0 50 demo ''s9'' (Some (Some ''tok-a''))) ''a'' = Some ''s9'' \<and>
   socketUser demo ''s1'' = Some alice \<and>
   connectedUsers (disconnect 60 demo ''s1'') (uid alice) = None \<and>
   findUserById ''a'' (users (disconnect 60 demo ''s1''))
     = Some (alice\<lparr>isOnline := False, lastSeen := 60\<rparr>)"
proof -
  have v: "''tok-a'' \<noteq> [] \<and> verify0 ''tok-a'' = Some ''a'' \<and> findUserById ''a'' (users demo) = Some alice"
    by (simp add: verify0_def demo_defs findUserById_def)
  have a: "socketUser demo ''s1'' = Some alice" "uid alice = ''a''"
    by (simp_all add: demo_defs)
  show ?thesis
    using presence_single_connection [of "''tok-a''" verify0 "''a''" demo alice 50 "''s9''"]
      presence_single_connection [of "''tok-a''" verify0 "''a''" demo alice 60 "''s1''" alice] v a
    by simp
qed

text \<open>Alice authenticates on a second socket \<open>s9\<close> and then closes the first: her
  mapping, which pointed to \<open>s9\<close>, is removed, she is stored as offline and bob is told
  so, while \<open>s9\<close> is still authenticated as alice.\<close>

theorem presence_multi_device_counterexample:
  "socketUser demo ''s1'' = Some alice \<and>
   socketUser (disconnect 60 (authenticate verify0 50 demo ''s9'' (Some (Some ''tok-a''))) ''s1'') ''s9''
     = Some alice \<and>
   connectedUsers (authenticate verify0 50 demo ''s9'' (Some (Some ''tok-a''))) ''a'' = Some ''s9'' \<and>
   connectedUsers (disconnect 60 (authenticate verify0 50 demo ''s9'' (Some (Some ''tok-a''))) ''s1'') ''a''
     = None \<and>
   findUserById ''a''
     (users (disconnect 60 (authenticate verify0 50 demo ''s9'' (Some (Some ''tok-a''))) ''s1''))
     = Some (alice\<lparr>isOnline := False, lastSeen := 60\<rparr>) \<and>
   outbox (disconnect 60 (authenticate verify0 50 demo ''s9'' (Some (Some ''tok-a''))) ''s1'')
     = [(ToSocket ''s9'', Authenticated ''a'' ''alice'' []),
        (ToSocket ''s2'', FriendOnline ''a'' ''alice''),
        (ToSocket ''s2'', FriendOffline ''a'' ''alice'')]"
  by (simp add: demo_defs verify0_def authenticate_def disconnect_def Let_def notify_friends_def
      findUserById_def updateUserPresence_def findActiveRides_def findFriends_def emit_def
      remove_member_def)

section \<open>Room membership\<close>

text \<open>
  C5. For an authenticated caller and a session id, a string that casts to an ObjectId:
  when no stored session has that id, join_ride only emits the error ``Ride not found''
  to the caller; when the stored session of that id does not list the caller among its
  participants, join_ride only emits the error ``Not a participant of this ride'' to the
  caller, and neither the transient membership map nor the socket rooms change,
  whatever the membership map holds. (A string that does not cast is no session id: the
  query is rejected and the caller gets ``Failed to join ride'', again with no other
  effect.)
\<close>

theorem join_ride_rejects_non_participant:
  assumes auth: "socketUser s sid = Some su"
  shows "(\<forall>c. cast rideId = Some c \<and> c \<notin> set (map rid (rides s)) \<longrightarrow>
            join_ride cast s sid (Some rideId) = emit s (ToSocket sid) (Error ''Ride not found''))
       \<and> (\<forall>r. findRideById cast rideId (rides s) = Inr (Some r) \<and>
                \<not> list_ex (\<lambda>p. p_user p = uid su) (participants r) \<longrightarrow>
            join_ride cast s sid (Some rideId) =
              emit s (ToSocket sid) (Error ''Not a participant of this ride'') \<and>
            rideRooms (join_ride cast s sid (Some rideId)) = rideRooms s \<and>
            ioRooms (join_ride cast s sid (Some rideId)) = ioRooms s)
       \<and> (cast rideId = None \<longrightarrow>
            join_ride cast s sid (Some rideId) =
              emit s (ToSocket sid) (Error ''Failed to join ride''))"
proof (intro conjI allI impI)
  fix c
  assume "cast rideId = Some c \<and> c \<notin> set (map rid (rides s))"
  then have "findRideById cast rideId (rides s) = Inr None"
    by (auto simp: findRideById_def find_None_iff)
  with auth show "join_ride cast s sid (Some rideId) =
      emit s (ToSocket sid) (Error ''Ride not found'')"
    by (simp add: join_ride_def)
next
  fix r
  assume h: "findRideById cast rideId (rides s) = Inr (Some r) \<and>
        \<not> list_ex (\<lambda>p. p_user p = uid su) (participants r)"
  with auth show run: "join_ride cast s sid (Some rideId) =
      emit s (ToSocket sid) (Error ''Not a participant of this ride'')"
    by (simp add: join_ride_def)
  show "rideRooms (join_ride cast s sid (Some rideId)) = rideRooms s"
    "ioRooms (join_ride cast s sid (Some rideId)) = ioRooms s"
    by (simp_all add: run emit_fields)
next
  assume "cast rideId = None"
  then have "findRideById cast rideId (rides s) = Inl CastError"
    by (simp add: findRideById_def)
  with auth show "join_ride cast s sid (Some rideId) =
      emit s (ToSocket sid) (Error ''Failed to join ride'')"
    by (simp add: join_ride_def)
qed

theorem join_ride_rejects_non_participant_witness:
  "socketUser demo ''s3'' = Some carol \<and>
   findRideById cast0 ''R1'' (rides demo) = Inr (Some ride1) \<and>
   \<not> list_ex (\<lambda>p. p_user p = uid carol) (participants ride1) \<and>
   rideRooms demo ''r1'' = Some {''b'', ''c''} \<and>
   join_ride cast0 demo ''s3'' (Some ''R1'')
     = emit demo (ToSocket ''s3'') (Error ''Not a participant of this ride'') \<and>
   rideRooms (join_ride cast0 demo ''s3'' (Some ''R1'')) = rideRooms demo \<and>
   cast0 ''r7'' = Some ''r7'' \<and> ''r7'' \<notin> set (map rid (rides demo)) \<and>
   join_ride cast0 demo ''s3'' (Some ''r7'') = emit demo (ToSocket ''s3'') (Error ''Ride not found'') \<and>
   cast0 ''zz'' = None \<and>
   join_ride cast0 demo ''s3'' (Some ''zz'')
     = emit demo (ToSocket ''s3'') (Error ''Failed to join ride'')"
proof -
  have a: "socketUser demo ''s3'' = Some carol" by (simp add: demo_def)
  have f: "findRideById cast0 ''R1'' (rides demo) = Inr (Some ride1)"
    by (simp add: demo_defs findRideById_def cast0_def)
  have c: "cast0 ''r7'' = Some ''r7''" "''r7'' \<notin> set (map rid (rides demo))" "cast0 ''zz'' = None"
    by (simp_all add: demo_defs cast0_def)
  have p: "\<not> list_ex (\<lambda>p. p_user p = uid carol) (participants ride1)"
    "rideRooms demo ''r1'' = Some {''b'', ''c''}"
    by (simp_all add: demo_defs)
  note t1 = join_ride_rejects_non_participant [OF a, of cast0 "''R1''"]
  note t7 = join_ride_rejects_non_participant [OF a, of cast0 "''r7''"]
  note tz = join_ride_rejects_non_participant [OF a, of cast0 "''zz''"]
  from t1 f p have j1: "join_ride cast0 demo ''s3'' (Some ''R1'')
     = emit demo (ToSocket ''s3'') (Error ''Not a participant of this ride'') \<and>
     rideRooms (join_ride cast0 demo ''s3'' (Some ''R1'')) = rideRooms demo" by blast
  from t7 c have j7: "join_ride cast0 demo ''s3'' (Some ''r7'')
     = emit demo (ToSocket ''s3'') (Error ''Ride not found'')" by blast
  from tz c have jz: "join_ride cast0 demo ''s3'' (Some ''zz'')
     = emit demo (ToSocket ''s3'') (Error ''Failed to join ride'')" by blast
  show ?thesis using a f c p j1 j7 jz by (simp add: emit_fields)
qed

text \<open>
  C6. For an authenticated caller who is a participant of an existing session, a second
  join_ride leaves the transient membership map and the socket rooms as the first left
  them (the caller is in both), and it succeeds again: it emits the joined_ride
  acknowledgement and the participant_joined notification, and no error.
\<close>

theorem join_ride_idempotent:
  assumes auth: "socketUser s sid = Some su"
    and found: "findRideById cast rideId (rides s) = Inr (Some r)"
    and part: "list_ex (\<lambda>p. p_user p = uid su) (participants r)"
  shows "rideRooms (join_ride cast (join_ride cast s sid (Some rideId)) sid (Some rideId))
           = rideRooms (join_ride cast s sid (Some rideId))
       \<and> ioRooms (join_ride cast (join_ride cast s sid (Some rideId)) sid (Some rideId))
           = ioRooms (join_ride cast s sid (Some rideId))
       \<and> (\<exists>us. rideRooms (join_ride cast s sid (Some rideId)) rideId = Some us \<and> uid su \<in> us)
       \<and> sid \<in> ioRooms (join_ride cast s sid (Some rideId)) rideId
       \<and> outbox (join_ride cast (join_ride cast s sid (Some rideId)) sid (Some rideId)) =
           outbox (join_ride cast s sid (Some rideId)) @
             [(ToSocket sid, JoinedRide rideId),
              (ToRoomExcept rideId sid, ParticipantJoined (uid su) (username su))]"
proof -
  have run: "\<And>s. socketUser s sid = Some su \<Longrightarrow>
      findRideById cast rideId (rides s) = Inr (Some r) \<Longrightarrow>
      join_ride cast s sid (Some rideId) =
        emit (emit (join_room s sid rideId (uid su)) (ToSocket sid) (JoinedRide rideId))
          (ToRoomExcept rideId sid) (ParticipantJoined (uid su) (username su))"
    using part by (simp add: join_ride_def)
  let ?s1 = "join_ride cast s sid (Some rideId)"
  have s1: "?s1 = emit (emit (join_room s sid rideId (uid su)) (ToSocket sid) (JoinedRide rideId))
          (ToRoomExcept rideId sid) (ParticipantJoined (uid su) (username su))"
    using auth found by (rule run)
  have "socketUser ?s1 sid = Some su" "findRideById cast rideId (rides ?s1) = Inr (Some r)"
    using auth found by (simp_all add: s1 emit_fields join_room_def)
  then have s2: "join_ride cast ?s1 sid (Some rideId) =
      emit (emit (join_room ?s1 sid rideId (uid su)) (ToSocket sid) (JoinedRide rideId))
          (ToRoomExcept rideId sid) (ParticipantJoined (uid su) (username su))"
    by (rule run)
  have rr: "rideRooms (join_room ?s1 sid rideId (uid su)) = rideRooms ?s1"
    by (auto simp: s1 emit_fields join_room_def)
  have io: "ioRooms (join_room ?s1 sid rideId (uid su)) = ioRooms ?s1"
    by (auto simp: s1 emit_fields join_room_def)
  have ob: "outbox (join_room ?s1 sid rideId (uid su)) = outbox ?s1"
    by (simp add: join_room_def)
  show ?thesis
    apply (simp only: s2 emit_fields rr io ob)
    apply (simp add: s1 emit_fields join_room_def)
    done
qed

theorem join_ride_idempotent_witness:
  "socketUser demo ''s2'' = Some bob \<and>
   findRideById cast0 ''r2'' (rides demo) = Inr (Some ride2) \<and>
   list_ex (\<lambda>p. p_user p = uid bob) (participants ride2) \<and>
   rideRooms (join_ride cast0 (join_ride cast0 demo ''s2'' (Some ''r2'')) ''s2'' (Some ''r2''))
     = rideRooms (join_ride cast0 demo ''s2'' (Some ''r2'')) \<and>
   ioRooms (join_ride cast0 (join_ride cast0 demo ''s2'' (Some ''r2'')) ''s2'' (Some ''r2''))
     = ioRooms (join_ride cast0 demo ''s2'' (Some ''r2'')) \<and>
   ''s2'' \<in> ioRooms (join_ride cast0 demo ''s2'' (Some ''r2'')) ''r2''"
proof -
  have a: "socketUser demo ''s2'' = Some bob" by (simp add: demo_def)
  have f: "findRideById cast0 ''r2'' (rides demo) = Inr (Some ride2)"
    by (simp add: demo_defs findRideById_def cast0_def)
  have p: "list_ex (\<lambda>p. p_user p = uid bob) (participants ride2)"
    by (simp add: demo_defs)
  show ?thesis
    using join_ride_idempotent [OF a f p] a f p by simp
qed

lemma remove_member_Some:
  "remove_member u us = Some us' \<Longrightarrow> us' = us - {u} \<and> us' \<noteq> {}"
  by (auto simp: remove_member_def Let_def split: if_splits)

lemma rideRooms_disconnect:
  "socketUser s sid = Some su \<Longrightarrow>
   rideRooms (disconnect now s sid) rideId =
     (case rideRooms s rideId of None \<Rightarrow> None | Some us \<Rightarrow> remove_member (uid su) us)"
  by (simp add: disconnect_def Let_def notify_friends_eq)

lemma rideRooms_leave_ride:
  "socketUser s sid = Some su \<Longrightarrow>
   rideRooms (leave_ride s sid (Some rideId)) k =
     (if k = rideId
      then (case rideRooms s rideId of None \<Rightarrow> None | Some us \<Rightarrow> remove_member (uid su) us)
      else rideRooms s k)"
  by (simp add: leave_ride_def Let_def emit_fields split: option.splits)

text \<open>
  C7. After the disconnect of an authenticated socket, no entry of the room map contains
  its identity and every entry is non-empty, however many rooms the identity was in; an
  entry with another member survives as the old set without the identity. After
  leave_ride, the entry of that room, if it survives, is non-empty and without the
  identity, the other entries are untouched, and if all entries were non-empty before
  they all are afterwards.
\<close>

theorem rooms_pruned:
  assumes auth: "socketUser s sid = Some su"
  shows "(\<forall>rideId us. rideRooms (disconnect now s sid) rideId = Some us \<longrightarrow>
            uid su \<notin> us \<and> us \<noteq> {})
       \<and> (\<forall>rideId us v. rideRooms s rideId = Some us \<and> v \<in> us \<and> v \<noteq> uid su \<longrightarrow>
            (\<exists>us'. rideRooms (disconnect now s sid) rideId = Some us' \<and> us' = us - {uid su}))
       \<and> (\<forall>us. rideRooms (leave_ride s sid (Some rideId)) rideId = Some us \<longrightarrow>
            uid su \<notin> us \<and> us \<noteq> {})
       \<and> (\<forall>k. k \<noteq> rideId \<longrightarrow> rideRooms (leave_ride s sid (Some rideId)) k = rideRooms s k)
       \<and> ((\<forall>k us. rideRooms s k = Some us \<longrightarrow> us \<noteq> {}) \<longrightarrow>
            (\<forall>k us. rideRooms (leave_ride s sid (Some rideId)) k = Some us \<longrightarrow> us \<noteq> {}))"
proof (intro conjI allI impI)
  fix r us
  assume "rideRooms (disconnect now s sid) r = Some us"
  then have "us = the (rideRooms s r) - {uid su} \<and> us \<noteq> {}"
    using remove_member_Some [of "uid su" "the (rideRooms s r)" us]
    by (auto simp: rideRooms_disconnect [OF auth] split: option.splits)
  then show "uid su \<notin> us" "us \<noteq> {}" by auto
next
  fix r us v
  assume "rideRooms s r = Some us \<and> v \<in> us \<and> v \<noteq> uid su"
  then show "\<exists>us'. rideRooms (disconnect now s sid) r = Some us' \<and> us' = us - {uid su}"
    by (auto simp: rideRooms_disconnect [OF auth] remove_member_def Let_def)
next
  fix us
  assume "rideRooms (leave_ride s sid (Some rideId)) rideId = Some us"
  then have "us = the (rideRooms s rideId) - {uid su} \<and> us \<noteq> {}"
    using remove_member_Some [of "uid su" "the (rideRooms s rideId)" us]
    by (auto simp: rideRooms_leave_ride [OF auth] split: option.splits)
  then show "uid su \<notin> us" "us \<noteq> {}" by auto
next
  fix k assume "k \<noteq> rideId"
  then show "rideRooms (leave_ride s sid (Some rideId)) k = rideRooms s k"
    by (simp add: rideRooms_leave_ride [OF auth])
next
  fix k us
  assume inv: "\<forall>k us. rideRooms s k = Some us \<longrightarrow> us \<noteq> {}"
    and "rideRooms (leave_ride s sid (Some rideId)) k = Some us"
  then show "us \<noteq> {}"
    using remove_member_Some [of "uid su" "the (rideRooms s rideId)" us]
    by (auto simp: rideRooms_leave_ride [OF auth] split: option.splits if_splits)
qed

theorem rooms_pruned_witness:
  "socketUser demo ''s2'' = Some bob \<and>
   rideRooms demo ''r1'' = Some {''b'', ''c''} \<and> rideRooms demo ''r2'' = Some {''b''} \<and>
   rideRooms (disconnect 60 demo ''s2'') ''r1'' = Some ({''b'', ''c''} - {''b''}) \<and>
   ''c'' \<in> {''b'', ''c''} - {''b''} \<and>
   rideRooms (disconnect 60 demo ''s2'') ''r2'' = None \<and>
   rideRooms (leave_ride demo ''s2'' (Some ''r2'')) ''r2'' = None \<and>
   rideRooms (leave_ride demo ''s2'' (Some ''r2'')) ''r1'' = Some {''b'', ''c''}"
proof -
  have a: "socketUser demo ''s2'' = Some bob" by (simp add: demo_def)
  have r1: "rideRooms demo ''r1'' = Some {''b'', ''c''}" by (simp add: demo_def)
  have r2: "rideRooms demo ''r2'' = Some {''b''}" by (simp add: demo_def)
  have u: "uid bob = ''b''" by (simp add: bob_def)
  have d2: "rideRooms (disconnect 60 demo ''s2'') ''r2'' = None"
    by (simp add: rideRooms_disconnect [OF a] r2 u remove_member_def)
  have l2: "rideRooms (leave_ride demo ''s2'' (Some ''r2'')) ''r2'' = None"
    by (simp add: rideRooms_leave_ride [OF a] r2 u remove_member_def)
  have c: "''c'' \<in> {''b'', ''c''} - {''b''}" by simp
  note t = rooms_pruned [OF a, of 60 "''r2''"]
  from t have "rideRooms demo ''r1'' = Some {''b'', ''c''} \<and> ''c'' \<in> {''b'', ''c''} \<and> ''c'' \<noteq> uid bob \<longrightarrow>
      (\<exists>us'. rideRooms (disconnect 60 demo ''s2'') ''r1'' = Some us' \<and> us' = {''b'', ''c''} - {uid bob})"
    by (elim conjE allE)
  then have d1: "rideRooms (disconnect 60 demo ''s2'') ''r1'' = Some ({''b'', ''c''} - {''b''})"
    using r1 u by simp
  from t have "''r1'' \<noteq> ''r2'' \<longrightarrow>
      rideRooms (leave_ride demo ''s2'' (Some ''r2'')) ''r1'' = rideRooms demo ''r1''"
    by (elim conjE allE)
  then have l1: "rideRooms (leave_ride demo ''s2'' (Some ''r2'')) ''r1'' = Some {''b'', ''c''}"
    using r1 by simp
  show ?thesis using a r1 r2 d1 d2 l1 l2 c by simp
qed

section \<open>Unauthenticated sockets\<close>

text \<open>
  On an unauthenticated socket, every event other than authenticate, and other than a
  typing event without a payload, is handled to the end: the callback returns, and it
  has either changed nothing or only emitted one error event to that socket; the
  registry, the room map, the socket rooms, the socket's identity and both collections
  stay as they were.
\<close>

lemma unauthenticated_events_contained:
  assumes unauth: "socketUser s sid = None"
    and other: "\<forall>data. ev \<noteq> Authenticate data"
    and payload: "ev \<noteq> Typing None"
  shows "\<exists>s'. handle cast verify now1 now2 s sid ev = Inr s'
       \<and> (s' = s \<or> (\<exists>msg. s' = emit s (ToSocket sid) (Error msg)))
       \<and> connectedUsers s' = connectedUsers s
       \<and> rideRooms s' = rideRooms s
       \<and> ioRooms s' = ioRooms s
       \<and> socketUser s' = socketUser s
       \<and> users s' = users s
       \<and> rides s' = rides s"
proof -
  have err: "\<And>m. \<exists>msg. emit s (ToSocket sid) (Error m) = emit s (ToSocket sid) (Error msg)"
    by blast
  show ?thesis
proof (cases ev)
  case (Authenticate data)
  with other show ?thesis by simp
next
  case (JoinRide data)
  with unauth show ?thesis
    by (cases data) (simp_all add: join_ride_def emit_fields err)
next
  case (LeaveRide data)
  with unauth show ?thesis
    by (cases data) (simp_all add: leave_ride_def)
next
  case (UpdateLocation data)
  with unauth show ?thesis
    by (cases data) (auto simp: update_location_def)
next
  case (SendMessage data)
  with unauth show ?thesis
    by (cases data) (simp_all add: send_message_def emit_fields err)
next
  case (StartRide data)
  with unauth show ?thesis
    by (cases data) (simp_all add: start_ride_def emit_fields err)
next
  case (EndRide data)
  with unauth show ?thesis
    by (cases data) (simp_all add: end_ride_def emit_fields err)
next
  case (Typing data)
  with unauth payload show ?thesis
    by (cases data) (auto simp: typing_def)
next
  case Disconnect
  with unauth show ?thesis by (simp add: disconnect_def)
qed
qed

text \<open>
  C9 fails in the code at one event. A typing event without a payload, sent on an
  unauthenticated socket: the handler destructures the payload before it tests
  \<open>socket.userId\<close>, and it alone has no \<open>try/catch\<close>, so the TypeError leaves the
  callback uncaught instead of the event being dropped or answered by an error event.
  With a payload the same event on the same socket is dropped, as the claim says.
\<close>

theorem typing_without_payload_uncaught:
  "socketUser demo ''s7'' = None \<and>
   handle cast0 verify0 300 301 demo ''s7'' (Typing None) = Inl TypeError \<and>
   handle cast0 verify0 300 301 demo ''s7'' (Typing (Some (''r1'', True))) = Inr demo \<and>
   handle cast0 verify0 300 301 demo ''s7'' (JoinRide None)
     = Inr (emit demo (ToSocket ''s7'') (Error ''Failed to join ride''))"
  by (simp add: demo_def typing_def join_ride_def)

end
